theory Spec2Isabelle
  imports Complex_Main
begin

section \<open>Numbers\<close>

text \<open>
  The knob's arithmetic is on JavaScript numbers, which are IEEE 754 doubles. The
  resolver, the controller and the spiral are modelled on exact reals: every number is
  finite and rounding error is left out there. A value of type \<open>number | null\<close> is a
  \<open>real option\<close>. Divisors that can be zero are kept away from HOL's total division:
  theorems that divide by \<open>angleRange\<close> or by \<open>max - min\<close> assume the divisor is not
  zero, and the one place where the code can divide zero by zero (the spiral's sample
  fraction) returns an explicit \<open>NaN\<close>.

  Snapping is modelled on doubles, because what \<open>snapPercentage\<close> returns is decided by
  rounding: in both copies of it every \<open>+\<close>, \<open>-\<close>, \<open>*\<close> and \<open>/\<close> rounds its exact result to
  the nearest double, a tie going to the even significand, and \<open>%\<close> is exact, as the
  remainder of two doubles is a double.
\<close>

definition js_trunc :: "real \<Rightarrow> int" where
  \<comment> \<open>rounding toward zero, the integer quotient of the remainder operator\<close>
  "js_trunc x = (if 0 \<le> x then \<lfloor>x\<rfloor> else \<lceil>x\<rceil>)"

definition js_rem :: "real \<Rightarrow> real \<Rightarrow> real" where
  \<comment> \<open>\<open>a % b\<close>: the remainder takes the sign of the dividend\<close>
  "js_rem a b = a - b * of_int (js_trunc (a / b))"

definition math_round :: "real \<Rightarrow> int" where
  \<comment> \<open>\<open>Math.round\<close>: nearest integer, a tie goes up\<close>
  "math_round x = \<lfloor>x + 1 / 2\<rfloor>"

definition num_of :: "real option \<Rightarrow> real" where
  \<comment> \<open>a \<open>null\<close> operand of an arithmetic operator counts as 0\<close>
  "num_of x = (case x of None \<Rightarrow> 0 | Some v \<Rightarrow> v)"

subsection \<open>Doubles\<close>

text \<open>
  A double has a significand of 53 bits. \<open>bit_length n\<close> is the number of binary digits
  of a positive integer, \<open>exponent_of x\<close> is the exponent \<open>e\<close> with
  \<open>2 ^ e \<le> x < 2 ^ (e + 1)\<close> for a positive \<open>x\<close>, and \<open>to_double x\<close> is the multiple of
  \<open>2 ^ (e - 52)\<close> nearest to \<open>x\<close>. The exponent is not bounded: overflow, subnormal numbers
  and the sign of zero are left out.
\<close>

function bit_length :: "int \<Rightarrow> int" where
  "bit_length n = (if n \<le> 0 then 0 else 1 + bit_length (n div 2))"
  by pat_completeness auto
termination
  by (relation "measure nat") auto

declare bit_length.simps [simp del]

definition exponent_of :: "real \<Rightarrow> int" where
  "exponent_of x =
     (if 1 \<le> x then bit_length \<lfloor>x\<rfloor> - 1 else - bit_length (\<lceil>1 / x\<rceil> - 1))"

definition pow2 :: "int \<Rightarrow> real" where
  "pow2 e = (if 0 \<le> e then 2 ^ nat e else 1 / 2 ^ nat (- e))"

definition round_half_even :: "real \<Rightarrow> int" where
  "round_half_even y =
     (let f = \<lfloor>y\<rfloor>; d = y - of_int f
      in if d < 1 / 2 then f
         else if 1 / 2 < d then f + 1
         else if even f then f else f + 1)"

definition to_double :: "real \<Rightarrow> real" where
  "to_double x =
     (if x = 0 then 0
      else (let u = pow2 (exponent_of \<bar>x\<bar> - 52)
            in of_int (round_half_even (x / u)) * u))"

text \<open>The four arithmetic operators on doubles.\<close>

definition d_add :: "real \<Rightarrow> real \<Rightarrow> real" where
  "d_add a b = to_double (a + b)"

definition d_sub :: "real \<Rightarrow> real \<Rightarrow> real" where
  "d_sub a b = to_double (a - b)"

definition d_mul :: "real \<Rightarrow> real \<Rightarrow> real" where
  "d_mul a b = to_double (a * b)"

definition d_div :: "real \<Rightarrow> real \<Rightarrow> real" where
  "d_div a b = to_double (a / b)"


section \<open>utils.ts: the resolver and the snapping used by the store\<close>

definition clamp :: "real \<Rightarrow> real \<Rightarrow> real \<Rightarrow> real" where
  "clamp lo hi v = max lo (min hi v)"

definition calculatePercentageFromMouseAngle :: "real \<Rightarrow> real \<Rightarrow> real \<Rightarrow> real" where
  "calculatePercentageFromMouseAngle mouseAngle angleOffset angleRange =
     (let rangle = js_rem (mouseAngle - (angleOffset + angleRange * (1 / 2)) + 900) 360 - 180;
          percentage = 1 / 2 + rangle / angleRange
      in clamp 0 1 percentage)"

text \<open>
  The result of the resolver. \<open>percentage\<close> is optional because the rejecting branch
  hands back \<open>previousPercentage\<close> as it received it.
\<close>

record Position =
  updated :: bool
  mouseAngle :: real
  percentage :: "real option"

definition validDeltaAngle :: "real \<Rightarrow> real \<Rightarrow> real" where
  \<comment> \<open>the local constant of the same name: the angle difference brought back into one half turn\<close>
  "validDeltaAngle angle prevAngle =
     (let deltaAngle = js_rem (angle - prevAngle) 360
      in if deltaAngle > 180 then - (360 - deltaAngle)
         else if deltaAngle < - 180 then 360 + deltaAngle
         else deltaAngle)"

definition calculatePositionFromMouseAngle ::
  "real \<Rightarrow> bool \<Rightarrow> real \<Rightarrow> real \<Rightarrow> real \<Rightarrow> real option \<Rightarrow> real option \<Rightarrow> Position" where
  \<comment> \<open>arguments: mouseAngle, multiRotation, angleOffset, angleRange, percentage,
      previousPercentage, previousMouseAngle\<close>
  "calculatePositionFromMouseAngle angle multi offset rng pct prevPct prevAngle =
     (case prevAngle of
        Some pa \<Rightarrow>
          (let v = validDeltaAngle angle pa
           in if v \<ge> 120 \<or> v \<le> - 120
              then \<lparr>updated = False, Position.mouseAngle = pa, Position.percentage = prevPct\<rparr>
              else
                (let newPercentage = num_of prevPct + v / rng
                 in if \<not> multi \<and> (newPercentage < 0 \<or> newPercentage > 1)
                    then
                      (let clampedPercentage = (if newPercentage < 0 then 0 else 1);
                           theoricalMouseAngle =
                             (if newPercentage < 0 then offset
                              else js_rem (offset + rng + 720) 360)
                       in \<lparr>updated = True, Position.mouseAngle = theoricalMouseAngle,
                            Position.percentage = Some clampedPercentage\<rparr>)
                    else \<lparr>updated = True, Position.mouseAngle = angle,
                           Position.percentage = Some newPercentage\<rparr>))
      | None \<Rightarrow>
          (if multi
           then
             (let rawPercentage = calculatePercentageFromMouseAngle angle offset rng;
                  deltaPercent = js_rem (rawPercentage + 1 - js_rem pct 1) 1;
                  validDeltaPercent =
                    (if deltaPercent > 1 / 2 then deltaPercent - 1 else deltaPercent)
              in \<lparr>updated = True, Position.mouseAngle = angle,
                   Position.percentage = Some (pct + validDeltaPercent)\<rparr>)
           else
             (let newPercentage = calculatePercentageFromMouseAngle angle offset rng
              in \<lparr>updated = True, Position.mouseAngle = angle,
                   Position.percentage = Some newPercentage\<rparr>)))"

text \<open>\<open>snapPercentage\<close> of utils.ts, on doubles.\<close>

definition snapPercentage :: "real \<Rightarrow> nat \<Rightarrow> real" where
  "snapPercentage pct nbIntervals =
     (if pct = 0 then 0
      else
        (let sign = sgn pct;
             p = \<bar>pct\<bar>;
             stepSize = d_div 1 (of_nat nbIntervals);
             extra = js_rem (d_add p (d_mul stepSize (1 / 2))) stepSize
         in d_add (d_mul sign (d_sub p (d_mul stepSize (1 / 2))))
                  (d_mul sign (d_sub stepSize extra))))"

definition snapPosition :: "Position \<Rightarrow> real \<Rightarrow> real \<Rightarrow> nat option \<Rightarrow> Position" where
  \<comment> \<open>arguments: position, state.angleOffset, state.angleRange, steps; \<open>!steps\<close> holds
      for a missing step count and for 0\<close>
  "snapPosition position offset rng steps =
     (if \<not> updated position then position
      else
        (case steps of
           None \<Rightarrow> position
         | Some n \<Rightarrow>
             if n = 0 then position
             else
               (let pct = snapPercentage (num_of (Position.percentage position)) n;
                    ma = js_rem (offset + rng * pct) 360
                in position\<lparr>Position.percentage := Some pct,
                     Position.mouseAngle := (if ma < 0 then ma + 360 else ma)\<rparr>)))"

definition getValueFromPercentage :: "real \<Rightarrow> real \<Rightarrow> real \<Rightarrow> real" where
  "getValueFromPercentage lo hi pct = lo + (hi - lo) * pct"

definition getPercentageFromValue :: "real \<Rightarrow> real \<Rightarrow> real \<Rightarrow> real" where
  "getPercentageFromValue lo hi v = (v - lo) / (hi - lo)"

section \<open>utils/angles.ts and utils/math.ts: the exported copies\<close>

text \<open>
  \<open>clamp\<close>, \<open>calculatePercentageFromMouseAngle\<close>, \<open>getValueFromPercentage\<close> and
  \<open>getPercentageFromValue\<close> have the same text in both places; the definitions above
  stand for both. The resolver and the snapping differ.
\<close>

definition angles_calculatePositionFromMouseAngle ::
  "real \<Rightarrow> bool \<Rightarrow> real \<Rightarrow> real \<Rightarrow> real \<Rightarrow> real option \<Rightarrow> real option \<Rightarrow> Position" where
  "angles_calculatePositionFromMouseAngle angle multi offset rng pct prevPct prevAngle =
     (let initial = \<lparr>updated = True, Position.mouseAngle = angle,
            Position.percentage = Some (calculatePercentageFromMouseAngle angle offset rng)\<rparr>
      in case prevAngle of
           None \<Rightarrow> initial
         | Some pa \<Rightarrow>
             (case prevPct of
                None \<Rightarrow> initial
              | Some pp \<Rightarrow>
                  if \<not> multi
                  then \<lparr>updated = True, Position.mouseAngle = angle,
                         Position.percentage =
                           Some (calculatePercentageFromMouseAngle angle offset rng)\<rparr>
                  else
                    (let mouseDiff = angle - pa
                     in if \<bar>mouseDiff\<bar> > 180
                        then \<lparr>updated = False, Position.mouseAngle = pa,
                               Position.percentage = Some pp\<rparr>
                        else \<lparr>updated = True, Position.mouseAngle = angle,
                               Position.percentage =
                                 Some (clamp 0 1 (pct + mouseDiff / rng))\<rparr>)))"

text \<open>\<open>snapPercentage\<close> of utils/math.ts, on doubles.\<close>

definition math_snapPercentage :: "real \<Rightarrow> nat \<Rightarrow> real" where
  "math_snapPercentage pct nbIntervals =
     d_div (of_int (math_round (d_mul pct (of_nat nbIntervals)))) (of_nat nbIntervals)"

section \<open>stores/knob.svelte.ts: the interaction controller\<close>

text \<open>
  \<open>KnobState\<close> is the interface of types.ts. The fields \<open>min\<close>, \<open>max\<close>, \<open>value\<close> and
  \<open>size\<close> carry the suffix \<open>_k\<close>. The store imports the resolver and the snapping from
  \<open>'../utils.js'\<close>, that is from utils.ts.
\<close>

record KnobState =
  isActive :: bool
  min_k :: real
  max_k :: real
  value_k :: "real option"
  percentage :: "real option"
  mouseAngle :: "real option"
  startPercentage :: "real option"
  startValue :: "real option"
  multiRotation :: bool
  angleOffset :: real
  angleRange :: real
  tracking :: bool
  size_k :: real
  steps :: "nat option"

text \<open>A call of one of the four callbacks, in the order the handlers make them.\<close>

datatype callback =
    OnStart
  | OnEnd
  | OnChange real
  | OnInteractiveChange real

definition createKnobState ::
  "real \<Rightarrow> real \<Rightarrow> bool \<Rightarrow> real option \<Rightarrow> real option \<Rightarrow> real option \<Rightarrow> real
     \<Rightarrow> nat option \<Rightarrow> bool \<Rightarrow> KnobState" where
  \<comment> \<open>arguments: min, max, multiRotation, initialValue, angleOffset (default 0),
      angleRange (default 360), size, steps, tracking; an initial value of 0 is falsy\<close>
  "createKnobState lo hi multi initialValue offset rng sz stp trk =
     \<lparr>isActive = False,
      min_k = lo,
      max_k = hi,
      value_k = Some (case initialValue of None \<Rightarrow> 0 | Some v \<Rightarrow> v),
      percentage =
        Some (case initialValue of
                None \<Rightarrow> 0
              | Some v \<Rightarrow> if v = 0 then 0 else (v - lo) / (hi - lo)),
      mouseAngle = None,
      startPercentage = None,
      startValue = None,
      multiRotation = multi,
      angleOffset = (case offset of None \<Rightarrow> 0 | Some a \<Rightarrow> a),
      angleRange = (case rng of None \<Rightarrow> 360 | Some a \<Rightarrow> a),
      tracking = trk,
      size_k = sz,
      steps = stp\<rparr>"

text \<open>
  Each handler takes the state and returns the state it leaves with the callbacks it
  made. The first argument is the \<open>steps\<close> of the enclosing \<open>createKnobState\<close> call,
  which the handlers pass to \<open>snapPosition\<close>. The assignments are kept one by one, in
  the order of the source.
\<close>

definition handleStart :: "nat option \<Rightarrow> real \<Rightarrow> KnobState \<Rightarrow> KnobState \<times> callback list" where
  "handleStart stp angle s =
     (let position =
            calculatePositionFromMouseAngle angle (multiRotation s) (angleOffset s)
              (angleRange s) (num_of (percentage s)) None None;
          position2 = snapPosition position (angleOffset s) (angleRange s) stp;
          v = getValueFromPercentage (min_k s) (max_k s)
                (num_of (Position.percentage position2));
          s1 = s\<lparr>isActive := True\<rparr>;
          s2 = s1\<lparr>mouseAngle := Some angle\<rparr>;
          s3 = s2\<lparr>percentage := Position.percentage position2\<rparr>;
          s4 = s3\<lparr>startPercentage := percentage s3\<rparr>;
          s5 = s4\<lparr>startValue := value_k s4\<rparr>;
          s6 = s5\<lparr>value_k := Some v\<rparr>
      in (s6, [OnStart, OnInteractiveChange v] @ (if tracking s6 then [OnChange v] else [])))"

definition handleMove :: "nat option \<Rightarrow> real \<Rightarrow> KnobState \<Rightarrow> KnobState \<times> callback list" where
  "handleMove stp angle s =
     (if \<not> isActive s then (s, [])
      else
        (let position =
               calculatePositionFromMouseAngle angle (multiRotation s) (angleOffset s)
                 (angleRange s) (num_of (percentage s)) (percentage s) (mouseAngle s);
             position2 = snapPosition position (angleOffset s) (angleRange s) stp;
             v = getValueFromPercentage (min_k s) (max_k s)
                   (num_of (Position.percentage position2));
             s1 = s\<lparr>mouseAngle := Some angle\<rparr>;
             s2 = s1\<lparr>percentage := Position.percentage position2\<rparr>;
             s3 = s2\<lparr>value_k := Some v\<rparr>
         in (s3, [OnInteractiveChange v] @ (if tracking s3 then [OnChange v] else []))))"

definition handleEnd :: "KnobState \<Rightarrow> KnobState \<times> callback list" where
  "handleEnd s =
     (let committed =
            (case value_k s of
               None \<Rightarrow> []
             | Some v \<Rightarrow> if tracking s then [] else [OnChange v]);
          s1 = s\<lparr>isActive := False\<rparr>;
          s2 = s1\<lparr>startPercentage := None\<rparr>;
          s3 = s2\<lparr>startValue := None\<rparr>
      in (s3, committed @ [OnEnd]))"

definition handleCancel :: "KnobState \<Rightarrow> KnobState \<times> callback list" where
  "handleCancel s =
     (let (r, reverted) =
            (case startValue s of
               None \<Rightarrow> (s, [])
             | Some sv \<Rightarrow>
                 (let r1 = s\<lparr>value_k := Some sv\<rparr>;
                      r2 = r1\<lparr>percentage := startPercentage r1\<rparr>
                  in (r2, if tracking r2 then [OnChange sv] else [])));
          s1 = r\<lparr>isActive := False\<rparr>;
          s2 = s1\<lparr>startPercentage := None\<rparr>;
          s3 = s2\<lparr>startValue := None\<rparr>
      in (s3, reverted @ [OnEnd]))"

definition handleStep :: "real \<Rightarrow> KnobState \<Rightarrow> KnobState \<times> callback list" where
  "handleStep direction s =
     (case value_k s of
        None \<Rightarrow> (s, [])
      | Some cur \<Rightarrow>
          (let v = clamp (min_k s) (max_k s) (cur + direction);
               pct = getPercentageFromValue (min_k s) (max_k s) v;
               s1 = s\<lparr>value_k := Some v\<rparr>;
               s2 = s1\<lparr>percentage := Some pct\<rparr>
           in (s2, [OnInteractiveChange v, OnChange v])))"

text \<open>The five events of the controller, and a run of them from left to right.\<close>

datatype event = Start real | Move real | End | Cancel | Step real

fun transition :: "nat option \<Rightarrow> event \<Rightarrow> KnobState \<Rightarrow> KnobState \<times> callback list" where
  "transition stp (Start angle) s = handleStart stp angle s"
| "transition stp (Move angle) s = handleMove stp angle s"
| "transition stp End s = handleEnd s"
| "transition stp Cancel s = handleCancel s"
| "transition stp (Step direction) s = handleStep direction s"

fun run :: "nat option \<Rightarrow> event list \<Rightarrow> KnobState \<Rightarrow> KnobState \<times> callback list" where
  "run stp [] s = (s, [])"
| "run stp (e # es) s =
     (let (s1, cs1) = transition stp e s;
          (s2, cs2) = run stp es s1
      in (s2, cs1 @ cs2))"

section \<open>components/Spiral.svelte: the path of the spiral\<close>

text \<open>
  The spiral divides by its segment count, which can be 0. Its numbers are therefore
  \<open>jsnum\<close>: a real, or \<open>NaN\<close>, which every operation hands on. The loop runs for
  \<open>i \<le> nb\<close>, so a segment count of 0 is met with \<open>i = 0\<close> only, and \<open>0 / 0\<close> is \<open>NaN\<close>.
\<close>

datatype jsnum = Num real | NaN

fun jadd :: "jsnum \<Rightarrow> jsnum \<Rightarrow> jsnum" where
  "jadd (Num a) (Num b) = Num (a + b)"
| "jadd _ _ = NaN"

fun jsub :: "jsnum \<Rightarrow> jsnum \<Rightarrow> jsnum" where
  "jsub (Num a) (Num b) = Num (a - b)"
| "jsub _ _ = NaN"

fun jmul :: "jsnum \<Rightarrow> jsnum \<Rightarrow> jsnum" where
  "jmul (Num a) (Num b) = Num (a * b)"
| "jmul _ _ = NaN"

fun jcos :: "jsnum \<Rightarrow> jsnum" where
  "jcos (Num a) = Num (cos a)"
| "jcos NaN = NaN"

fun jsin :: "jsnum \<Rightarrow> jsnum" where
  "jsin (Num a) = Num (sin a)"
| "jsin NaN = NaN"

fun jdiv_const :: "jsnum \<Rightarrow> real \<Rightarrow> jsnum" where
  \<comment> \<open>division by a constant that is not zero\<close>
  "jdiv_const (Num a) c = Num (a / c)"
| "jdiv_const NaN c = NaN"

definition sample_fraction :: "int \<Rightarrow> int \<Rightarrow> jsnum" where
  \<comment> \<open>\<open>i / nb\<close> for \<open>0 \<le> i \<le> nb\<close>\<close>
  "sample_fraction i nb = (if nb = 0 then NaN else Num (of_int i / of_int nb))"

definition pointOnCircle :: "real \<Rightarrow> jsnum \<Rightarrow> jsnum \<Rightarrow> jsnum \<times> jsnum" where
  "pointOnCircle center radius angle =
     (jadd (Num center) (jmul radius (jcos angle)),
      jadd (Num center) (jmul radius (jsin angle)))"

definition degTorad :: "real \<Rightarrow> real" where
  "degTorad deg = pi * deg / 180"

definition ordered :: "real \<Rightarrow> real \<Rightarrow> real \<Rightarrow> real \<Rightarrow> real \<times> real \<times> real \<times> real" where
  "ordered v1 p1 v2 p2 = (if v1 \<le> v2 then (v1, p1, v2, p2) else (v2, p2, v1, p1))"

text \<open>
  The path is a template string. It is kept as the list of its pieces: the literal
  text, and each interpolated number as the number itself.
\<close>

datatype piece = Lit string | Val jsnum

text \<open>The four strings the loop builds, with the suffix \<open>_s\<close>.\<close>

record spiral_acc =
  forth_s :: "piece list"
  start_s :: "piece list"
  back_s :: "piece list"
  link_s :: "piece list"

definition spiral_step ::
  "real \<Rightarrow> real \<Rightarrow> real \<Rightarrow> real \<Rightarrow> real \<Rightarrow> real \<Rightarrow> int \<Rightarrow> int \<Rightarrow> spiral_acc \<Rightarrow> spiral_acc" where
  \<comment> \<open>one round of the loop; arguments: outerRadiusMin, outerRadiusMax, arcWidth,
      startAngleRad, endAngleRad, center, nb, i\<close>
  "spiral_step outerRadiusMin outerRadiusMax arcWidth startAngleRad endAngleRad center nb i acc =
     (let coef = sample_fraction i nb;
          outerRadius = jadd (Num outerRadiusMin) (jmul (Num (outerRadiusMax - outerRadiusMin)) coef);
          innerRadius = jsub outerRadius (Num arcWidth);
          angleRad = jadd (Num startAngleRad) (jmul (Num (endAngleRad - startAngleRad)) coef);
          angleDeg = jmul (jdiv_const (jmul angleRad (Num 180)) pi) coef;
          po = pointOnCircle center outerRadius angleRad;
          pin = pointOnCircle center innerRadius angleRad;
          acc1 =
            (if i = 0
             then acc\<lparr>start_s := [Val (fst po), Lit '','', Val (snd po), Lit '' '']\<rparr>
             else acc\<lparr>forth_s := forth_s acc @
                    [Val outerRadius, Lit '','', Val outerRadius, Lit '' '', Val angleDeg,
                     Lit '' 0 1 '', Val (fst po), Lit '','', Val (snd po), Lit '' '']\<rparr>)
      in if i = nb
         then acc1\<lparr>link_s := [Val (fst pin), Lit '','', Val (snd pin), Lit '' '']\<rparr>
         else acc1\<lparr>back_s :=
                [Val innerRadius, Lit '','', Val innerRadius, Lit '' '', Val angleDeg,
                 Lit '' 0 0 '', Val (fst pin), Lit '','', Val (snd pin), Lit '' ''] @ back_s acc1\<rparr>)"

definition calcPath ::
  "real option \<Rightarrow> real option \<Rightarrow> real \<Rightarrow> real \<Rightarrow> real \<Rightarrow> real \<Rightarrow> real \<Rightarrow> real \<Rightarrow> piece list" where
  \<comment> \<open>arguments: percentageFrom, percentageTo, angleOffset, angleRange, arcWidth,
      outerRadiusFrom, outerRadiusTo, center; the empty list is the empty string\<close>
  "calcPath percentageFrom percentageTo offset rng arcWidth outerRadiusFrom outerRadiusTo center =
     (case percentageFrom of
        None \<Rightarrow> []
      | Some pf \<Rightarrow>
          (case percentageTo of
             None \<Rightarrow> []
           | Some pt \<Rightarrow>
               (let (percentageMin, outerRadiusMin, percentageMax, outerRadiusMax) =
                      ordered pf outerRadiusFrom pt outerRadiusTo;
                    angle = rng * (percentageMax - percentageMin);
                    startAngle = offset - 90 + rng * percentageMin;
                    startAngleRad = degTorad startAngle;
                    endAngleRad = degTorad (startAngle + angle);
                    nb = \<lceil>percentageMax - percentageMin\<rceil> * 4;
                    acc = fold (spiral_step outerRadiusMin outerRadiusMax arcWidth
                                  startAngleRad endAngleRad center nb)
                            [0..nb] \<lparr>forth_s = [], start_s = [], back_s = [], link_s = []\<rparr>
                in [Lit ''M ''] @ start_s acc @ [Lit ''A ''] @ forth_s acc @ [Lit ''L ''] @ link_s acc
                   @ [Lit ''A ''] @ back_s acc @ [Lit ''z''])))"

section \<open>A knob to run the controller on\<close>

text \<open>
  A single-rotation knob from 0 to 100 that starts at 10, with the default angles, no
  steps and \<open>tracking\<close> on.
\<close>

definition example_knob :: KnobState where
  "example_knob = createKnobState 0 100 False (Some 10) None None 100 None True"

section \<open>Predicates of the statements\<close>

text \<open>A callback is a call of \<open>onChange\<close>.\<close>

fun is_OnChange :: "callback \<Rightarrow> bool" where
  "is_OnChange (OnChange v) = True"
| "is_OnChange _ = False"

text \<open>A percentage is a number between 0 and 1.\<close>

definition unit_pct :: "real option \<Rightarrow> bool" where
  "unit_pct x = (case x of None \<Rightarrow> False | Some p \<Rightarrow> 0 \<le> p \<and> p \<le> 1)"

text \<open>No step count is set, so that \<open>snapPosition\<close> returns the position it is given.\<close>

definition no_snapping :: "nat option \<Rightarrow> bool" where
  "no_snapping stp = (case stp of None \<Rightarrow> True | Some n \<Rightarrow> n = 0)"

text \<open>
  What the single-rotation controller keeps true: a valid configuration, a percentage
  between 0 and 1, and the same for the snapshot of a running interaction.
\<close>

definition single_turn_inv :: "KnobState \<Rightarrow> bool" where
  "single_turn_inv s =
     (\<not> multiRotation s \<and> min_k s < max_k s \<and> angleRange s \<noteq> 0
      \<and> unit_pct (percentage s)
      \<and> (startValue s = None \<or> unit_pct (startPercentage s)))"

text \<open>A path, or the strings of the loop, with no \<open>NaN\<close> in it.\<close>

definition finite_pieces :: "piece list \<Rightarrow> bool" where
  "finite_pieces ps = (Val NaN \<notin> set ps)"

definition finite_acc :: "spiral_acc \<Rightarrow> bool" where
  "finite_acc acc =
     (finite_pieces (forth_s acc) \<and> finite_pieces (start_s acc)
      \<and> finite_pieces (back_s acc) \<and> finite_pieces (link_s acc))"

section \<open>Facts about the numbers\<close>

lemmas knob_simps =
  example_knob_def createKnobState_def handleStart_def handleMove_def handleEnd_def
  handleCancel_def handleStep_def calculatePositionFromMouseAngle_def snapPosition_def
  calculatePercentageFromMouseAngle_def validDeltaAngle_def getValueFromPercentage_def
  getPercentageFromValue_def clamp_def js_rem_def js_trunc_def num_of_def Let_def

lemmas dbl =
  to_double_def exponent_of_def pow2_def round_half_even_def bit_length.simps Let_def

text \<open>
  The rounding is to a nearest neighbour: the exponent brackets the number, and
  \<open>to_double\<close> is off by at most half a unit in the last place.
\<close>

lemma bit_length_bounds:
  assumes "1 \<le> n"
  shows "1 \<le> bit_length n \<and> 2 ^ nat (bit_length n - 1) \<le> n \<and> n < 2 ^ nat (bit_length n)"
  using assms
proof (induction n rule: bit_length.induct)
  case (1 n)
  show ?case
  proof (cases "n = 1")
    case True
    have "bit_length 1 = 1"
      by (simp add: bit_length.simps)
    then show ?thesis using True by simp
  next
    case False
    then have h: "1 \<le> n div 2" using "1.prems" by simp
    have pos: "\<not> n \<le> 0" using "1.prems" by simp
    have ih: "1 \<le> bit_length (n div 2)
        \<and> 2 ^ nat (bit_length (n div 2) - 1) \<le> n div 2
        \<and> n div 2 < 2 ^ nat (bit_length (n div 2))"
      using "1.IH" [OF pos h] .
    define b where "b = bit_length (n div 2)"
    have bl: "bit_length n = 1 + b"
      using pos by (subst bit_length.simps) (simp add: b_def)
    have b1: "1 \<le> b" and lo: "2 ^ nat (b - 1) \<le> n div 2" and hi: "n div 2 < 2 ^ nat b"
      using ih by (simp_all add: b_def)
    have e1: "nat (1 + b - 1) = Suc (nat (b - 1))" using b1 by simp
    have e2: "nat (1 + b) = Suc (nat b)" using b1 by simp
    have "2 * 2 ^ nat (b - 1) \<le> n" using lo by simp
    moreover have "n < 2 * 2 ^ nat b" using hi by simp
    ultimately show ?thesis
      unfolding bl e1 e2 using b1 by simp
  qed
qed

lemma pow2_pos: "0 < pow2 e"
  by (simp add: pow2_def)

lemma pow2_Suc: "pow2 (e + 1) = 2 * pow2 e"
proof (cases "0 \<le> e")
  case True
  then have "nat (e + 1) = Suc (nat e)" by simp
  then show ?thesis using True by (simp add: pow2_def)
next
  case False
  then have "nat (- e) = Suc (nat (- (e + 1)))" by simp
  then show ?thesis using False by (simp add: pow2_def)
qed

lemma exponent_of_bounds:
  assumes "0 < x"
  shows "pow2 (exponent_of x) \<le> x \<and> x < 2 * pow2 (exponent_of x)"
proof (cases "1 \<le> x")
  case True
  define n where "n = \<lfloor>x\<rfloor>"
  have n1: "1 \<le> n" using True by (simp add: n_def)
  define b where "b = bit_length n"
  have bb: "1 \<le> b" "2 ^ nat (b - 1) \<le> n" "n < 2 ^ nat b"
    using bit_length_bounds [OF n1] by (simp_all add: b_def)
  have e: "exponent_of x = b - 1"
    using True by (simp add: exponent_of_def n_def b_def)
  have p: "pow2 (b - 1) = 2 ^ nat (b - 1)"
    using bb(1) by (simp add: pow2_def)
  have nb: "nat b = Suc (nat (b - 1))" using bb(1) by simp
  have "(2 :: real) ^ nat (b - 1) \<le> real_of_int n"
    using bb(2) by (metis of_int_le_iff of_int_numeral of_int_power)
  also have "real_of_int n \<le> x" by (simp add: n_def)
  finally have lo: "2 ^ nat (b - 1) \<le> x" .
  have "n + 1 \<le> 2 ^ nat b" using bb(3) by simp
  then have "real_of_int (n + 1) \<le> (2 :: real) ^ nat b"
    by (metis of_int_le_iff of_int_numeral of_int_power)
  moreover have "x < real_of_int (n + 1)" by (simp add: n_def)
  ultimately have "x < 2 ^ nat b" by linarith
  then have hi: "x < 2 * 2 ^ nat (b - 1)" by (simp add: nb)
  show ?thesis unfolding e p using lo hi by simp
next
  case False
  define y where "y = 1 / x"
  have y1: "1 < y" using False assms by (simp add: y_def)
  define m where "m = \<lceil>y\<rceil> - 1"
  have m1: "1 \<le> m"
  proof -
    have "1 < \<lceil>y\<rceil>" using y1 by (simp add: less_ceiling_iff)
    then show ?thesis by (simp add: m_def)
  qed
  define b where "b = bit_length m"
  have bb: "1 \<le> b" "2 ^ nat (b - 1) \<le> m" "m < 2 ^ nat b"
    using bit_length_bounds [OF m1] by (simp_all add: b_def)
  have e: "exponent_of x = - b"
    using False by (simp add: exponent_of_def y_def m_def b_def)
  have p: "pow2 (- b) = 1 / 2 ^ nat b"
    using bb(1) by (simp add: pow2_def)
  have nb: "nat b = Suc (nat (b - 1))" using bb(1) by simp
  have my: "real_of_int m < y" "y \<le> real_of_int m + 1"
    by (simp_all add: m_def) linarith+
  have "m + 1 \<le> 2 ^ nat b" using bb(3) by simp
  then have "real_of_int (m + 1) \<le> (2 :: real) ^ nat b"
    by (metis of_int_le_iff of_int_numeral of_int_power)
  then have yhi: "y \<le> 2 ^ nat b" using my(2) by simp
  have "(2 :: real) ^ nat (b - 1) \<le> real_of_int m"
    using bb(2) by (metis of_int_le_iff of_int_numeral of_int_power)
  then have ylo: "2 ^ nat (b - 1) < y" using my(1) by linarith
  have xy: "x = 1 / y" using assms by (simp add: y_def)
  have lo: "1 / 2 ^ nat b \<le> x"
    unfolding xy using yhi y1 by (simp add: frac_le)
  have "1 / y < 1 / 2 ^ nat (b - 1)"
    using ylo by (simp add: frac_less2)
  then have hi: "x < 2 * (1 / 2 ^ nat b)"
    unfolding xy by (simp add: nb)
  show ?thesis unfolding e p using lo hi by simp
qed

lemma round_half_even_near: "\<bar>of_int (round_half_even y) - y\<bar> \<le> 1 / 2"
  unfolding round_half_even_def Let_def
  by (auto simp: abs_le_iff)

lemma to_double_nearest:
  assumes "x \<noteq> 0"
  shows "\<bar>to_double x - x\<bar> \<le> pow2 (exponent_of \<bar>x\<bar> - 52) / 2"
proof -
  define u where "u = pow2 (exponent_of \<bar>x\<bar> - 52)"
  have u: "0 < u" by (simp add: u_def pow2_pos)
  have t: "to_double x = of_int (round_half_even (x / u)) * u"
    using assms by (simp add: to_double_def Let_def u_def)
  have "\<bar>of_int (round_half_even (x / u)) - x / u\<bar> \<le> 1 / 2"
    by (rule round_half_even_near)
  then have "\<bar>of_int (round_half_even (x / u)) - x / u\<bar> * u \<le> 1 / 2 * u"
    using u by (simp add: mult_right_mono)
  moreover have "\<bar>of_int (round_half_even (x / u)) - x / u\<bar> * u
      = \<bar>of_int (round_half_even (x / u)) * u - x\<bar>"
  proof -
    have "\<bar>of_int (round_half_even (x / u)) - x / u\<bar> * u
        = \<bar>(of_int (round_half_even (x / u)) - x / u) * u\<bar>"
      using u by (simp add: abs_mult)
    also have "(of_int (round_half_even (x / u)) - x / u) * u
        = of_int (round_half_even (x / u)) * u - x"
      using u by (simp add: algebra_simps)
    finally show ?thesis .
  qed
  ultimately show ?thesis
    unfolding t u_def [symmetric] by simp
qed

text \<open>Three doubles: 1 is one, and 1/3 and 1/10 are rounded.\<close>

lemma to_double_values:
  "to_double 1 = 1"
  "to_double (1 / 3) = 6004799503160661 / 18014398509481984"
  "to_double (1 / 10) = 3602879701896397 / 36028797018963968"
  by (simp_all add: dbl)

text \<open>Both copies of the snapping return 0 for 0.\<close>

lemma snapPercentage_zero:
  "snapPercentage 0 n = 0"
  "math_snapPercentage 0 n = 0"
  by (simp_all add: snapPercentage_def math_snapPercentage_def math_round_def d_mul_def
      d_div_def to_double_def)

text \<open>
  \<open>snapPercentage\<close> of utils.ts at six inputs, one operation at a time. The doubles are
  written as fractions: 9007199254740991 / 9007199254740992 is 0.9999999999999999,
  4503599627370497 / 4503599627370496 is 1.0000000000000002,
  3602879701896397 / 18014398509481984 is 0.2,
  7205759403792793 / 36028797018963968 is 0.19999999999999998 and
  - 1 / 288230376151711744 is -3.469446951953614e-18.
\<close>

lemma snapPercentage_1_3: "snapPercentage 1 3 = 9007199254740991 / 9007199254740992"
proof -
  have st: "d_div 1 (of_nat 3) = (6004799503160661 / 18014398509481984)"
    by (simp add: d_div_def dbl)
  have h: "d_mul (6004799503160661 / 18014398509481984) (1 / 2) = (6004799503160661 / 36028797018963968)"
    by (simp add: d_mul_def dbl)
  have a: "d_add \<bar>1\<bar> (6004799503160661 / 36028797018963968) = (5254199565265579 / 4503599627370496)"
    by (simp add: d_add_def dbl)
  have e: "js_rem (5254199565265579 / 4503599627370496) (6004799503160661 / 18014398509481984) = (3002399751580333 / 18014398509481984)"
    by (simp add: js_rem_def js_trunc_def)
  have t1: "d_sub \<bar>1\<bar> (6004799503160661 / 36028797018963968) = (7505999378950827 / 9007199254740992)"
    by (simp add: d_sub_def dbl)
  have t2: "d_sub (6004799503160661 / 18014398509481984) (3002399751580333 / 18014398509481984) = (375299968947541 / 2251799813685248)"
    by (simp add: d_sub_def dbl)
  have m1: "d_mul (sgn 1) (7505999378950827 / 9007199254740992) = (7505999378950827 / 9007199254740992)"
    by (simp add: d_mul_def dbl)
  have m2: "d_mul (sgn 1) (375299968947541 / 2251799813685248) = (375299968947541 / 2251799813685248)"
    by (simp add: d_mul_def dbl)
  have r: "d_add (7505999378950827 / 9007199254740992) (375299968947541 / 2251799813685248) = (9007199254740991 / 9007199254740992)"
    by (simp add: d_add_def dbl)
  have "snapPercentage 1 3 =
      d_add (d_mul (sgn 1) (d_sub \<bar>1\<bar> (d_mul (d_div 1 (of_nat 3)) (1 / 2))))
        (d_mul (sgn 1) (d_sub (d_div 1 (of_nat 3))
           (js_rem (d_add \<bar>1\<bar> (d_mul (d_div 1 (of_nat 3)) (1 / 2))) (d_div 1 (of_nat 3)))))"
    unfolding snapPercentage_def Let_def by simp
  then show ?thesis
    unfolding st h a e t1 t2 m1 m2 r .
qed

lemma snapPercentage_1_20: "snapPercentage 1 20 = 4503599627370497 / 4503599627370496"
proof -
  have st: "d_div 1 (of_nat 20) = (3602879701896397 / 72057594037927936)"
    by (simp add: d_div_def dbl)
  have h: "d_mul (3602879701896397 / 72057594037927936) (1 / 2) = (3602879701896397 / 144115188075855872)"
    by (simp add: d_mul_def dbl)
  have a: "d_add \<bar>1\<bar> (3602879701896397 / 144115188075855872) = (2308094809027379 / 2251799813685248)"
    by (simp add: d_add_def dbl)
  have e: "js_rem (2308094809027379 / 2251799813685248) (3602879701896397 / 72057594037927936) = (450359962737047 / 18014398509481984)"
    by (simp add: js_rem_def js_trunc_def)
  have t1: "d_sub \<bar>1\<bar> (3602879701896397 / 144115188075855872) = (8782019273372467 / 9007199254740992)"
    by (simp add: d_sub_def dbl)
  have t2: "d_sub (3602879701896397 / 72057594037927936) (450359962737047 / 18014398509481984) = (1801439850948209 / 72057594037927936)"
    by (simp add: d_sub_def dbl)
  have m1: "d_mul (sgn 1) (8782019273372467 / 9007199254740992) = (8782019273372467 / 9007199254740992)"
    by (simp add: d_mul_def dbl)
  have m2: "d_mul (sgn 1) (1801439850948209 / 72057594037927936) = (1801439850948209 / 72057594037927936)"
    by (simp add: d_mul_def dbl)
  have r: "d_add (8782019273372467 / 9007199254740992) (1801439850948209 / 72057594037927936) = (4503599627370497 / 4503599627370496)"
    by (simp add: d_add_def dbl)
  have "snapPercentage 1 20 =
      d_add (d_mul (sgn 1) (d_sub \<bar>1\<bar> (d_mul (d_div 1 (of_nat 20)) (1 / 2))))
        (d_mul (sgn 1) (d_sub (d_div 1 (of_nat 20))
           (js_rem (d_add \<bar>1\<bar> (d_mul (d_div 1 (of_nat 20)) (1 / 2))) (d_div 1 (of_nat 20)))))"
    unfolding snapPercentage_def Let_def by simp
  then show ?thesis
    unfolding st h a e t1 t2 m1 m2 r .
qed

lemma snapPercentage_eighth_5: "snapPercentage (1 / 8) 5 = 3602879701896397 / 18014398509481984"
proof -
  have st: "d_div 1 (of_nat 5) = (3602879701896397 / 18014398509481984)"
    by (simp add: d_div_def dbl)
  have h: "d_mul (3602879701896397 / 18014398509481984) (1 / 2) = (3602879701896397 / 36028797018963968)"
    by (simp add: d_mul_def dbl)
  have a: "d_add \<bar>(1 / 8)\<bar> (3602879701896397 / 36028797018963968) = (8106479329266893 / 36028797018963968)"
    by (simp add: d_add_def dbl)
  have e: "js_rem (8106479329266893 / 36028797018963968) (3602879701896397 / 18014398509481984) = (900719925474099 / 36028797018963968)"
    by (simp add: js_rem_def js_trunc_def)
  have t1: "d_sub \<bar>(1 / 8)\<bar> (3602879701896397 / 36028797018963968) = (900719925474099 / 36028797018963968)"
    by (simp add: d_sub_def dbl)
  have t2: "d_sub (3602879701896397 / 18014398509481984) (900719925474099 / 36028797018963968) = (6305039478318695 / 36028797018963968)"
    by (simp add: d_sub_def dbl)
  have m1: "d_mul (sgn (1 / 8)) (900719925474099 / 36028797018963968) = (900719925474099 / 36028797018963968)"
    by (simp add: d_mul_def dbl)
  have m2: "d_mul (sgn (1 / 8)) (6305039478318695 / 36028797018963968) = (6305039478318695 / 36028797018963968)"
    by (simp add: d_mul_def dbl)
  have r: "d_add (900719925474099 / 36028797018963968) (6305039478318695 / 36028797018963968) = (3602879701896397 / 18014398509481984)"
    by (simp add: d_add_def dbl)
  have "snapPercentage (1 / 8) 5 =
      d_add (d_mul (sgn (1 / 8)) (d_sub \<bar>(1 / 8)\<bar> (d_mul (d_div 1 (of_nat 5)) (1 / 2))))
        (d_mul (sgn (1 / 8)) (d_sub (d_div 1 (of_nat 5))
           (js_rem (d_add \<bar>(1 / 8)\<bar> (d_mul (d_div 1 (of_nat 5)) (1 / 2))) (d_div 1 (of_nat 5)))))"
    unfolding snapPercentage_def Let_def by simp
  then show ?thesis
    unfolding st h a e t1 t2 m1 m2 r .
qed

lemma snapPercentage_eighth_5_again: "snapPercentage (3602879701896397 / 18014398509481984) 5 = 7205759403792793 / 36028797018963968"
proof -
  have st: "d_div 1 (of_nat 5) = (3602879701896397 / 18014398509481984)"
    by (simp add: d_div_def dbl)
  have h: "d_mul (3602879701896397 / 18014398509481984) (1 / 2) = (3602879701896397 / 36028797018963968)"
    by (simp add: d_mul_def dbl)
  have a: "d_add \<bar>(3602879701896397 / 18014398509481984)\<bar> (3602879701896397 / 36028797018963968) = (1351079888211149 / 4503599627370496)"
    by (simp add: d_add_def dbl)
  have e: "js_rem (1351079888211149 / 4503599627370496) (3602879701896397 / 18014398509481984) = (1801439850948199 / 18014398509481984)"
    by (simp add: js_rem_def js_trunc_def)
  have t1: "d_sub \<bar>(3602879701896397 / 18014398509481984)\<bar> (3602879701896397 / 36028797018963968) = (3602879701896397 / 36028797018963968)"
    by (simp add: d_sub_def dbl)
  have t2: "d_sub (3602879701896397 / 18014398509481984) (1801439850948199 / 18014398509481984) = (900719925474099 / 9007199254740992)"
    by (simp add: d_sub_def dbl)
  have m1: "d_mul (sgn (3602879701896397 / 18014398509481984)) (3602879701896397 / 36028797018963968) = (3602879701896397 / 36028797018963968)"
    by (simp add: d_mul_def dbl)
  have m2: "d_mul (sgn (3602879701896397 / 18014398509481984)) (900719925474099 / 9007199254740992) = (900719925474099 / 9007199254740992)"
    by (simp add: d_mul_def dbl)
  have r: "d_add (3602879701896397 / 36028797018963968) (900719925474099 / 9007199254740992) = (7205759403792793 / 36028797018963968)"
    by (simp add: d_add_def dbl)
  have "snapPercentage (3602879701896397 / 18014398509481984) 5 =
      d_add (d_mul (sgn (3602879701896397 / 18014398509481984)) (d_sub \<bar>(3602879701896397 / 18014398509481984)\<bar> (d_mul (d_div 1 (of_nat 5)) (1 / 2))))
        (d_mul (sgn (3602879701896397 / 18014398509481984)) (d_sub (d_div 1 (of_nat 5))
           (js_rem (d_add \<bar>(3602879701896397 / 18014398509481984)\<bar> (d_mul (d_div 1 (of_nat 5)) (1 / 2))) (d_div 1 (of_nat 5)))))"
    unfolding snapPercentage_def Let_def by simp
  then show ?thesis
    unfolding st h a e t1 t2 m1 m2 r .
qed

lemma snapPercentage_63_64_20: "snapPercentage (63 / 64) 20 = 4503599627370497 / 4503599627370496"
proof -
  have st: "d_div 1 (of_nat 20) = (3602879701896397 / 72057594037927936)"
    by (simp add: d_div_def dbl)
  have h: "d_mul (3602879701896397 / 72057594037927936) (1 / 2) = (3602879701896397 / 144115188075855872)"
    by (simp add: d_mul_def dbl)
  have a: "d_add \<bar>(63 / 64)\<bar> (3602879701896397 / 144115188075855872) = (2272910436938547 / 2251799813685248)"
    by (simp add: d_add_def dbl)
  have e: "js_rem (2272910436938547 / 2251799813685248) (3602879701896397 / 72057594037927936) = (168884986026391 / 18014398509481984)"
    by (simp add: js_rem_def js_trunc_def)
  have t1: "d_sub \<bar>(63 / 64)\<bar> (3602879701896397 / 144115188075855872) = (8641281785017139 / 9007199254740992)"
    by (simp add: d_sub_def dbl)
  have t2: "d_sub (3602879701896397 / 72057594037927936) (168884986026391 / 18014398509481984) = (2927339757790833 / 72057594037927936)"
    by (simp add: d_sub_def dbl)
  have m1: "d_mul (sgn (63 / 64)) (8641281785017139 / 9007199254740992) = (8641281785017139 / 9007199254740992)"
    by (simp add: d_mul_def dbl)
  have m2: "d_mul (sgn (63 / 64)) (2927339757790833 / 72057594037927936) = (2927339757790833 / 72057594037927936)"
    by (simp add: d_mul_def dbl)
  have r: "d_add (8641281785017139 / 9007199254740992) (2927339757790833 / 72057594037927936) = (4503599627370497 / 4503599627370496)"
    by (simp add: d_add_def dbl)
  have "snapPercentage (63 / 64) 20 =
      d_add (d_mul (sgn (63 / 64)) (d_sub \<bar>(63 / 64)\<bar> (d_mul (d_div 1 (of_nat 20)) (1 / 2))))
        (d_mul (sgn (63 / 64)) (d_sub (d_div 1 (of_nat 20))
           (js_rem (d_add \<bar>(63 / 64)\<bar> (d_mul (d_div 1 (of_nat 20)) (1 / 2))) (d_div 1 (of_nat 20)))))"
    unfolding snapPercentage_def Let_def by simp
  then show ?thesis
    unfolding st h a e t1 t2 m1 m2 r .
qed

lemma snapPercentage_1_64_25: "snapPercentage (1 / 64) 25 = (- (1 / 288230376151711744))"
proof -
  have st: "d_div 1 (of_nat 25) = (5764607523034235 / 144115188075855872)"
    by (simp add: d_div_def dbl)
  have h: "d_mul (5764607523034235 / 144115188075855872) (1 / 2) = (5764607523034235 / 288230376151711744)"
    by (simp add: d_mul_def dbl)
  have a: "d_add \<bar>(1 / 64)\<bar> (5764607523034235 / 288230376151711744) = (2567051787601183 / 72057594037927936)"
    by (simp add: d_add_def dbl)
  have e: "js_rem (2567051787601183 / 72057594037927936) (5764607523034235 / 144115188075855872) = (2567051787601183 / 72057594037927936)"
    by (simp add: js_rem_def js_trunc_def)
  have t1: "d_sub \<bar>(1 / 64)\<bar> (5764607523034235 / 288230376151711744) = (- (1261007895663739 / 288230376151711744))"
    by (simp add: d_sub_def dbl)
  have t2: "d_sub (5764607523034235 / 144115188075855872) (2567051787601183 / 72057594037927936) = (630503947831869 / 144115188075855872)"
    by (simp add: d_sub_def dbl)
  have m1: "d_mul (sgn (1 / 64)) (- (1261007895663739 / 288230376151711744)) = (- (1261007895663739 / 288230376151711744))"
    by (simp add: d_mul_def dbl)
  have m2: "d_mul (sgn (1 / 64)) (630503947831869 / 144115188075855872) = (630503947831869 / 144115188075855872)"
    by (simp add: d_mul_def dbl)
  have r: "d_add (- (1261007895663739 / 288230376151711744)) (630503947831869 / 144115188075855872) = (- (1 / 288230376151711744))"
    by (simp add: d_add_def dbl)
  have "snapPercentage (1 / 64) 25 =
      d_add (d_mul (sgn (1 / 64)) (d_sub \<bar>(1 / 64)\<bar> (d_mul (d_div 1 (of_nat 25)) (1 / 2))))
        (d_mul (sgn (1 / 64)) (d_sub (d_div 1 (of_nat 25))
           (js_rem (d_add \<bar>(1 / 64)\<bar> (d_mul (d_div 1 (of_nat 25)) (1 / 2))) (d_div 1 (of_nat 25)))))"
    unfolding snapPercentage_def Let_def by simp
  then show ?thesis
    unfolding st h a e t1 t2 m1 m2 r .
qed

text \<open>\<open>snapPercentage\<close> of utils/math.ts at the same inputs.\<close>

lemma math_snapPercentage_1_3: "math_snapPercentage 1 3 = 1"
  by (simp add: math_snapPercentage_def math_round_def d_mul_def d_div_def dbl)

lemma math_snapPercentage_1_20: "math_snapPercentage 1 20 = 1"
  by (simp add: math_snapPercentage_def math_round_def d_mul_def d_div_def dbl)

lemma math_snapPercentage_eighth_5: "math_snapPercentage (1 / 8) 5 = (3602879701896397 / 18014398509481984)"
  by (simp add: math_snapPercentage_def math_round_def d_mul_def d_div_def dbl)

lemma math_snapPercentage_eighth_5_again: "math_snapPercentage (3602879701896397 / 18014398509481984) 5 = (3602879701896397 / 18014398509481984)"
  by (simp add: math_snapPercentage_def math_round_def d_mul_def d_div_def dbl)

lemma math_snapPercentage_63_64_20: "math_snapPercentage (63 / 64) 20 = 1"
  by (simp add: math_snapPercentage_def math_round_def d_mul_def d_div_def dbl)

lemma math_snapPercentage_1_64_25: "math_snapPercentage (1 / 64) 25 = 0"
  by (simp add: math_snapPercentage_def math_round_def d_mul_def d_div_def dbl)

lemma upto_0_0: "[0..0::int] = [0]"
  by (simp add: upto.simps)

text \<open>
  For two samples of one turn, \<open>validDeltaAngle\<close> is the difference taken the short
  way round, at most a half turn.
\<close>

lemma validDeltaAngle_samples:
  assumes "0 \<le> angle" "angle < 360" "0 \<le> pa" "pa < 360"
  shows "validDeltaAngle angle pa =
           (if 180 < angle - pa then angle - pa - 360
            else if angle - pa < - 180 then angle - pa + 360
            else angle - pa)"
    and "\<bar>validDeltaAngle angle pa\<bar> \<le> 180"
proof -
  have "- 1 < (angle - pa) / 360" "(angle - pa) / 360 < 1"
    using assms by simp_all
  then have "js_trunc ((angle - pa) / 360) = 0"
    unfolding js_trunc_def by (auto simp: floor_eq_iff ceiling_eq_iff)
  then have r: "js_rem (angle - pa) 360 = angle - pa"
    by (simp add: js_rem_def)
  show "validDeltaAngle angle pa =
           (if 180 < angle - pa then angle - pa - 360
            else if angle - pa < - 180 then angle - pa + 360
            else angle - pa)"
    by (simp add: validDeltaAngle_def r)
  then show "\<bar>validDeltaAngle angle pa\<bar> \<le> 180"
    using assms by (simp split: if_splits)
qed

text \<open>
  In single-rotation mode the resolver stays between 0 and 1, and without a step count
  \<open>snapPosition\<close> changes nothing.
\<close>

lemma unit_pct_Some [simp]: "unit_pct (Some p) = (0 \<le> p \<and> p \<le> 1)"
  by (simp add: unit_pct_def)

lemma unit_pct_None [simp]: "unit_pct None = False"
  by (simp add: unit_pct_def)

lemma calculatePercentage_unit:
  "0 \<le> calculatePercentageFromMouseAngle angle offset rng"
  "calculatePercentageFromMouseAngle angle offset rng \<le> 1"
  by (simp_all add: calculatePercentageFromMouseAngle_def clamp_def Let_def)

lemma resolver_single_unit:
  assumes "unit_pct prevPct"
  shows "unit_pct (Position.percentage
           (calculatePositionFromMouseAngle angle False offset rng pct prevPct prevAngle))"
proof -
  obtain pp where pp: "prevPct = Some pp" "0 \<le> pp" "pp \<le> 1"
    using assms by (cases prevPct) simp_all
  show ?thesis
  proof (cases prevAngle)
    case None
    then show ?thesis
      by (simp add: calculatePositionFromMouseAngle_def calculatePercentage_unit)
  next
    case (Some pa)
    then show ?thesis
      using pp by (auto simp: calculatePositionFromMouseAngle_def Let_def num_of_def)
  qed
qed

lemma snapPosition_without_steps:
  assumes "no_snapping stp"
  shows "snapPosition position offset rng stp = position"
  using assms by (simp add: snapPosition_def no_snapping_def split: option.splits)

section \<open>The resolver\<close>

text \<open>
  Claim C1, as the code has it. In multi-rotation mode, with a previous mouse angle and a
  previous percentage, the resolver of utils.ts (the one the store calls) rejects a sample
  exactly when the difference of the two angles, brought back into one half turn by
  \<open>validDeltaAngle\<close>, is 120 degrees or more in absolute value; it then returns
  \<open>updated = false\<close> with the previous mouse angle and the previous percentage.
  Otherwise it returns \<open>updated = true\<close>, the current mouse angle and the previous
  percentage plus that difference over \<open>angleRange\<close>, not clamped. The resolver of
  utils/angles.ts rejects exactly when the plain difference of the two angles is above
  180 degrees in absolute value; a sample it accepts keeps the current mouse angle and
  gives \<open>percentage\<close> plus the difference over \<open>angleRange\<close> whenever that sum lies
  between 0 and 1.
\<close>

theorem multi_rotation_update:
  assumes "rng \<noteq> 0"
  shows
    "calculatePositionFromMouseAngle angle True offset rng pct (Some pp) (Some pa) =
       (if 120 \<le> \<bar>validDeltaAngle angle pa\<bar>
        then \<lparr>updated = False, Position.mouseAngle = pa, Position.percentage = Some pp\<rparr>
        else \<lparr>updated = True, Position.mouseAngle = angle,
               Position.percentage = Some (pp + validDeltaAngle angle pa / rng)\<rparr>)
     \<and> (180 < \<bar>angle - pa\<bar> \<longrightarrow>
          angles_calculatePositionFromMouseAngle angle True offset rng pct (Some pp) (Some pa) =
            \<lparr>updated = False, Position.mouseAngle = pa, Position.percentage = Some pp\<rparr>)
     \<and> (\<bar>angle - pa\<bar> \<le> 180 \<longrightarrow>
          updated (angles_calculatePositionFromMouseAngle angle True offset rng pct (Some pp) (Some pa))
          \<and> Position.mouseAngle
               (angles_calculatePositionFromMouseAngle angle True offset rng pct (Some pp) (Some pa)) = angle)
     \<and> (\<bar>angle - pa\<bar> \<le> 180 \<and> 0 \<le> pct + (angle - pa) / rng \<and> pct + (angle - pa) / rng \<le> 1 \<longrightarrow>
          Position.percentage
            (angles_calculatePositionFromMouseAngle angle True offset rng pct (Some pp) (Some pa)) =
            Some (pct + (angle - pa) / rng))"
proof -
  have u: "calculatePositionFromMouseAngle angle True offset rng pct (Some pp) (Some pa) =
       (if 120 \<le> \<bar>validDeltaAngle angle pa\<bar>
        then \<lparr>updated = False, Position.mouseAngle = pa, Position.percentage = Some pp\<rparr>
        else \<lparr>updated = True, Position.mouseAngle = angle,
               Position.percentage = Some (pp + validDeltaAngle angle pa / rng)\<rparr>)"
    by (auto simp: calculatePositionFromMouseAngle_def Let_def num_of_def)
  have a: "angles_calculatePositionFromMouseAngle angle True offset rng pct (Some pp) (Some pa) =
       (if 180 < \<bar>angle - pa\<bar>
        then \<lparr>updated = False, Position.mouseAngle = pa, Position.percentage = Some pp\<rparr>
        else \<lparr>updated = True, Position.mouseAngle = angle,
               Position.percentage = Some (clamp 0 1 (pct + (angle - pa) / rng))\<rparr>)"
    by (simp add: angles_calculatePositionFromMouseAngle_def Let_def)
  have c: "0 \<le> x \<Longrightarrow> x \<le> 1 \<Longrightarrow> clamp 0 1 x = x" for x
    by (simp add: clamp_def)
  show ?thesis
    unfolding a using u c by simp
qed

text \<open>
  Claim C1, witness: with a range of 360 degrees and a previous angle of 10, utils.ts
  accepts the angle 100 and rejects 150; utils/angles.ts rejects 200 and accepts 100.
\<close>

theorem multi_rotation_update_witness:
  "(360 :: real) \<noteq> 0
   \<and> calculatePositionFromMouseAngle 100 True 0 360 (1 / 2) (Some (1 / 2)) (Some 10) =
       \<lparr>updated = True, Position.mouseAngle = 100, Position.percentage = Some (3 / 4)\<rparr>
   \<and> calculatePositionFromMouseAngle 150 True 0 360 (1 / 2) (Some (1 / 2)) (Some 10) =
       \<lparr>updated = False, Position.mouseAngle = 10, Position.percentage = Some (1 / 2)\<rparr>
   \<and> angles_calculatePositionFromMouseAngle 200 True 0 360 (1 / 2) (Some (1 / 2)) (Some 10) =
       \<lparr>updated = False, Position.mouseAngle = 10, Position.percentage = Some (1 / 2)\<rparr>
   \<and> Position.percentage
        (angles_calculatePositionFromMouseAngle 100 True 0 360 (1 / 2) (Some (1 / 2)) (Some 10)) =
       Some (3 / 4)"
  using multi_rotation_update [of 360 100 0 "1 / 2" "1 / 2" 10]
    multi_rotation_update [of 360 150 0 "1 / 2" "1 / 2" 10]
    multi_rotation_update [of 360 200 0 "1 / 2" "1 / 2" 10]
  by (simp add: validDeltaAngle_def js_rem_def js_trunc_def)

text \<open>
  Claim C1, counterexample. From the angle 0 to the angle 150 the difference is below
  180 degrees, yet utils.ts rejects the sample. From the percentage 0.9 and a
  difference of 100 degrees, utils/angles.ts returns 1 and not 0.9 + 100 / 360.
\<close>

theorem multi_rotation_update_counterexample:
  "\<not> (updated (calculatePositionFromMouseAngle 150 True 0 360 (1 / 2) (Some (1 / 2)) (Some 0))
       \<and> Position.percentage
            (calculatePositionFromMouseAngle 150 True 0 360 (1 / 2) (Some (1 / 2)) (Some 0)) =
          Some (1 / 2 + (150 - 0) / 360))
   \<and> \<not> (Position.percentage
            (angles_calculatePositionFromMouseAngle 100 True 0 360 (9 / 10) (Some (9 / 10)) (Some 0)) =
          Some (9 / 10 + (100 - 0) / 360))"
  by (simp add: calculatePositionFromMouseAngle_def angles_calculatePositionFromMouseAngle_def
      validDeltaAngle_def js_rem_def js_trunc_def clamp_def)

text \<open>
  Claim C4, as the code has it. In single-rotation mode the resolver of utils/angles.ts
  returns \<open>updated = true\<close>, the current mouse angle and
  \<open>calculatePercentageFromMouseAngle\<close> of the current angle, whatever the previous angle
  and percentage are. The resolver of utils.ts, which the store calls, works from the
  previous state: it rejects a difference of 120 degrees or more, and otherwise adds the
  difference over \<open>angleRange\<close> to the previous percentage; a sum below 0 gives the
  percentage 0 at the angle \<open>angleOffset\<close>, a sum above 1 gives the percentage 1 at the
  angle \<open>(angleOffset + angleRange + 720) % 360\<close>.
\<close>

theorem single_rotation_update:
  assumes "rng \<noteq> 0"
  shows
    "angles_calculatePositionFromMouseAngle angle False offset rng pct prevPct prevAngle =
       \<lparr>updated = True, Position.mouseAngle = angle,
        Position.percentage = Some (calculatePercentageFromMouseAngle angle offset rng)\<rparr>
     \<and> calculatePositionFromMouseAngle angle False offset rng pct (Some pp) (Some pa) =
       (if 120 \<le> \<bar>validDeltaAngle angle pa\<bar>
        then \<lparr>updated = False, Position.mouseAngle = pa, Position.percentage = Some pp\<rparr>
        else if pp + validDeltaAngle angle pa / rng < 0
        then \<lparr>updated = True, Position.mouseAngle = offset, Position.percentage = Some 0\<rparr>
        else if 1 < pp + validDeltaAngle angle pa / rng
        then \<lparr>updated = True, Position.mouseAngle = js_rem (offset + rng + 720) 360,
               Position.percentage = Some 1\<rparr>
        else \<lparr>updated = True, Position.mouseAngle = angle,
               Position.percentage = Some (pp + validDeltaAngle angle pa / rng)\<rparr>)"
proof -
  have a: "angles_calculatePositionFromMouseAngle angle False offset rng pct prevPct prevAngle =
       \<lparr>updated = True, Position.mouseAngle = angle,
        Position.percentage = Some (calculatePercentageFromMouseAngle angle offset rng)\<rparr>"
    by (simp add: angles_calculatePositionFromMouseAngle_def Let_def split: option.splits)
  have u: "calculatePositionFromMouseAngle angle False offset rng pct (Some pp) (Some pa) =
       (if 120 \<le> \<bar>validDeltaAngle angle pa\<bar>
        then \<lparr>updated = False, Position.mouseAngle = pa, Position.percentage = Some pp\<rparr>
        else if pp + validDeltaAngle angle pa / rng < 0
        then \<lparr>updated = True, Position.mouseAngle = offset, Position.percentage = Some 0\<rparr>
        else if 1 < pp + validDeltaAngle angle pa / rng
        then \<lparr>updated = True, Position.mouseAngle = js_rem (offset + rng + 720) 360,
               Position.percentage = Some 1\<rparr>
        else \<lparr>updated = True, Position.mouseAngle = angle,
               Position.percentage = Some (pp + validDeltaAngle angle pa / rng)\<rparr>)"
    by (auto simp: calculatePositionFromMouseAngle_def Let_def num_of_def)
  show ?thesis using a u by simp
qed

text \<open>
  Claim C4, witness: a full-circle knob whose previous sample was 350 degrees, at
  35/36 of the range, and whose pointer crosses the top to 10 degrees. utils/angles.ts
  jumps to 1/36; utils.ts stops at the end of the range.
\<close>

theorem single_rotation_update_witness:
  "(360 :: real) \<noteq> 0
   \<and> angles_calculatePositionFromMouseAngle 10 False 0 360 (35 / 36) (Some (35 / 36)) (Some 350) =
       \<lparr>updated = True, Position.mouseAngle = 10, Position.percentage = Some (1 / 36)\<rparr>
   \<and> calculatePositionFromMouseAngle 10 False 0 360 (35 / 36) (Some (35 / 36)) (Some 350) =
       \<lparr>updated = True, Position.mouseAngle = 0, Position.percentage = Some 1\<rparr>"
  using single_rotation_update [of 360 10 0 "35 / 36" "Some (35 / 36)" "Some 350" "35 / 36" 350]
  by (simp add: validDeltaAngle_def calculatePercentageFromMouseAngle_def clamp_def
      js_rem_def js_trunc_def)

text \<open>
  Claim C4, counterexample: for that same sample the percentage returned by utils.ts is
  not the first-contact percentage of the current angle.
\<close>

theorem single_rotation_update_counterexample:
  "Position.percentage
     (calculatePositionFromMouseAngle 10 False 0 360 (35 / 36) (Some (35 / 36)) (Some 350))
   \<noteq> Some (calculatePercentageFromMouseAngle 10 0 360)"
  by (simp add: calculatePositionFromMouseAngle_def validDeltaAngle_def
      calculatePercentageFromMouseAngle_def clamp_def js_rem_def js_trunc_def num_of_def Let_def)

text \<open>
  Claim C5, as the code has it: with \<open>angleOffset = 0\<close> and \<open>angleRange = 360\<close> the mouse
  angle 0, the top of the circle, is where the range starts and gives the percentage 0;
  the percentage 0.5 is at the mouse angle 180.
\<close>

theorem top_of_circle_is_start:
  "calculatePercentageFromMouseAngle 0 0 360 = 0
   \<and> calculatePercentageFromMouseAngle 180 0 360 = 1 / 2"
  by (simp add: calculatePercentageFromMouseAngle_def clamp_def js_rem_def js_trunc_def)

text \<open>
  Claim C5, counterexample: \<open>calculatePercentageFromMouseAngle\<close> at mouse angle 0,
  offset 0 and range 360 is not 0.5.
\<close>

theorem top_of_circle_counterexample:
  "calculatePercentageFromMouseAngle 0 0 360 \<noteq> 1 / 2"
  by (simp add: calculatePercentageFromMouseAngle_def clamp_def js_rem_def js_trunc_def)

section \<open>Snapping\<close>

text \<open>
  Claim C9, on the endpoint 1 and on a snapped percentage. \<open>snapPercentage\<close> of utils.ts
  returns 0.9999999999999999 for 1 on 3 intervals and 1.0000000000000002 for 1 on 20
  intervals, and it snaps 0.125 on 5 intervals to 0.2 and that 0.2 to
  0.19999999999999998. \<open>snapPercentage\<close> of utils/math.ts returns 1, 1, 0.2 and 0.2 at the
  same inputs.
\<close>

theorem snapping_rounds_off_the_steps:
  "snapPercentage 1 3 = 9007199254740991 / 9007199254740992
   \<and> snapPercentage 1 3 \<noteq> 1
   \<and> snapPercentage 1 20 = 4503599627370497 / 4503599627370496
   \<and> snapPercentage 1 20 \<noteq> 1
   \<and> snapPercentage (1 / 8) 5 = 3602879701896397 / 18014398509481984
   \<and> snapPercentage (snapPercentage (1 / 8) 5) 5 = 7205759403792793 / 36028797018963968
   \<and> snapPercentage (snapPercentage (1 / 8) 5) 5 \<noteq> snapPercentage (1 / 8) 5
   \<and> math_snapPercentage 1 3 = 1
   \<and> math_snapPercentage 1 20 = 1
   \<and> math_snapPercentage (1 / 8) 5 = 3602879701896397 / 18014398509481984
   \<and> math_snapPercentage (math_snapPercentage (1 / 8) 5) 5 = math_snapPercentage (1 / 8) 5"
  by (simp add: snapPercentage_1_3 snapPercentage_1_20 snapPercentage_eighth_5
      snapPercentage_eighth_5_again math_snapPercentage_1_3 math_snapPercentage_1_20
      math_snapPercentage_eighth_5 math_snapPercentage_eighth_5_again)

section \<open>The controller\<close>

text \<open>A run of two lists of events is the run of the first followed by the second.\<close>

lemma run_append:
  "run stp (es @ fs) s =
     (fst (run stp fs (fst (run stp es s))),
      snd (run stp es s) @ snd (run stp fs (fst (run stp es s))))"
  by (induction es arbitrary: s) (simp_all add: split_beta)

text \<open>
  After a start, an active move or a step, the value is the one the percentage gives.
  An end leaves both as they are.
\<close>

lemma handleStart_value_of_percentage:
  "value_k (fst (handleStart stp angle s)) =
     Some (getValueFromPercentage (min_k s) (max_k s)
             (num_of (percentage (fst (handleStart stp angle s)))))"
  by (simp add: handleStart_def Let_def)

lemma handleMove_value_of_percentage:
  assumes "isActive s"
  shows "value_k (fst (handleMove stp angle s)) =
     Some (getValueFromPercentage (min_k s) (max_k s)
             (num_of (percentage (fst (handleMove stp angle s)))))"
  using assms by (simp add: handleMove_def Let_def)

lemma handleStep_value_of_percentage:
  assumes "min_k s < max_k s" "value_k s = Some cur"
  shows "value_k (fst (handleStep direction s)) =
     Some (getValueFromPercentage (min_k s) (max_k s)
             (num_of (percentage (fst (handleStep direction s)))))"
  using assms
  by (simp add: handleStep_def Let_def getValueFromPercentage_def getPercentageFromValue_def
      num_of_def)

lemma handleEnd_keeps_value_and_percentage:
  "value_k (fst (handleEnd s)) = value_k s"
  "percentage (fst (handleEnd s)) = percentage s"
  by (simp_all add: handleEnd_def Let_def)

text \<open>
  The snapshot of a start: the value is the one from before the start, the percentage
  is the one the start has just stored.
\<close>

lemma handleStart_snapshot_mismatch:
  "startValue (fst (handleStart stp angle s)) = value_k s"
  "startPercentage (fst (handleStart stp angle s)) = percentage (fst (handleStart stp angle s))"
  by (simp_all add: handleStart_def Let_def)

text \<open>An active move stores the angle it is given and always makes a callback.\<close>

lemma handleMove_never_reads_updated:
  assumes "isActive s"
  shows "mouseAngle (fst (handleMove stp angle s)) = Some angle"
    and "snd (handleMove stp angle s) \<noteq> []"
  using assms by (simp_all add: handleMove_def Let_def)

text \<open>
  Claim C2, on a sample the resolver rejects. The example knob is started at 90 degrees
  (percentage 1/4, value 25) and the pointer then jumps to 270 degrees. The resolver
  returns \<open>updated = false\<close> with the previous angle 90; \<open>handleMove\<close> stores the angle
  270 all the same and calls \<open>onInteractiveChange(25)\<close> and \<open>onChange(25)\<close>.
\<close>

theorem rejected_sample_still_advances:
  "updated (calculatePositionFromMouseAngle 270 False 0 360 (1 / 4) (Some (1 / 4)) (Some 90)) = False
   \<and> fst (handleStart None 90 example_knob) =
       example_knob\<lparr>isActive := True, mouseAngle := Some 90, percentage := Some (1 / 4),
         startPercentage := Some (1 / 4), startValue := Some 10, value_k := Some 25\<rparr>
   \<and> handleMove None 270 (fst (handleStart None 90 example_knob)) =
       ((fst (handleStart None 90 example_knob))\<lparr>mouseAngle := Some 270\<rparr>,
        [OnInteractiveChange 25, OnChange 25])"
  by (simp add: knob_simps)

text \<open>
  Claim C3, on a cancelled interaction. The example knob holds value 10 at percentage
  1/10, with \<open>min = 0\<close> and \<open>max = 100\<close>. After a start at 180 degrees and a cancel, the
  value is 10 again and the percentage is 1/2, where \<open>min + (max - min) * percentage\<close>
  is 50.
\<close>

theorem cancel_breaks_value_percentage_relation:
  "value_k example_knob = Some 10 \<and> percentage example_knob = Some (1 / 10)
   \<and> min_k example_knob = 0 \<and> max_k example_knob = 100 \<and> \<not> multiRotation example_knob
   \<and> value_k (fst (run None [Start 180, Cancel] example_knob)) = Some 10
   \<and> percentage (fst (run None [Start 180, Cancel] example_knob)) = Some (1 / 2)
   \<and> min_k (fst (run None [Start 180, Cancel] example_knob)) = 0
   \<and> max_k (fst (run None [Start 180, Cancel] example_knob)) = 100
   \<and> getValueFromPercentage 0 100 (1 / 2) = 50"
  by (simp add: knob_simps)

text \<open>What a start records, what the moves keep and what a cancel gives back.\<close>

lemma handleStart_snapshot:
  "startValue (fst (handleStart stp a s)) = value_k s"
  "tracking (fst (handleStart stp a s)) = tracking s"
  "isActive (fst (handleStart stp a s))"
  "filter is_OnChange (snd (handleStart stp a s)) =
     (if tracking s then filter is_OnChange (snd (handleStart stp a s)) else [])"
  by (simp_all add: handleStart_def Let_def)

lemma handleMove_keeps:
  "startValue (fst (handleMove stp a s)) = startValue s"
  "tracking (fst (handleMove stp a s)) = tracking s"
  "\<not> tracking s \<Longrightarrow> filter is_OnChange (snd (handleMove stp a s)) = []"
  by (simp_all add: handleMove_def Let_def)

lemma moves_keep:
  "startValue (fst (run stp (map Move angles) s)) = startValue s
   \<and> tracking (fst (run stp (map Move angles) s)) = tracking s
   \<and> (if tracking s then True
       else filter is_OnChange (snd (run stp (map Move angles) s)) = [])"
proof (induction angles arbitrary: s)
  case Nil
  then show ?case by simp
next
  case (Cons a angles)
  show ?case
    using Cons.IH [of "fst (handleMove stp a s)"]
    by (simp add: split_beta handleMove_keeps)
qed

lemma handleCancel_reverts:
  assumes "startValue s = Some v0"
  shows "value_k (fst (handleCancel s)) = Some v0"
    and "startValue (fst (handleCancel s)) = None"
    and "startPercentage (fst (handleCancel s)) = None"
    and "\<not> isActive (fst (handleCancel s))"
    and "snd (handleCancel s) = (if tracking s then [OnChange v0, OnEnd] else [OnEnd])"
  using assms by (simp_all add: handleCancel_def Let_def)

text \<open>
  Claim C6: an interaction starts in a state whose value is \<open>v0\<close> and is dragged through
  any moves. The cancel then leaves the value \<open>v0\<close>, clears \<open>startValue\<close> and
  \<open>startPercentage\<close>, ends the interaction, and calls \<open>onChange(v0)\<close> followed by \<open>onEnd\<close>
  when \<open>tracking\<close> is on, \<open>onEnd\<close> alone when it is off. With \<open>tracking\<close> off, no call of
  \<open>onChange\<close> is made from the start to the cancel.
\<close>

theorem cancel_restores_start_value:
  assumes "value_k s = Some v0"
  shows
    "value_k (fst (run stp (Start a # map Move angles @ [Cancel]) s)) = Some v0
     \<and> startValue (fst (run stp (Start a # map Move angles @ [Cancel]) s)) = None
     \<and> startPercentage (fst (run stp (Start a # map Move angles @ [Cancel]) s)) = None
     \<and> \<not> isActive (fst (run stp (Start a # map Move angles @ [Cancel]) s))
     \<and> snd (handleCancel (fst (run stp (Start a # map Move angles) s))) =
         (if tracking s then [OnChange v0, OnEnd] else [OnEnd])
     \<and> (\<not> tracking s \<longrightarrow>
          filter is_OnChange (snd (run stp (Start a # map Move angles @ [Cancel]) s)) = [])"
proof -
  define s1 where "s1 = fst (handleStart stp a s)"
  define s2 where "s2 = fst (run stp (map Move angles) s1)"
  have sv1: "startValue s1 = Some v0" and t1: "tracking s1 = tracking s"
    using assms by (simp_all add: s1_def handleStart_snapshot)
  have sv2: "startValue s2 = Some v0" and t2: "tracking s2 = tracking s"
    using moves_keep [of stp angles s1] sv1 t1 by (simp_all add: s2_def)
  have drag: "fst (run stp (Start a # map Move angles) s) = s2"
    by (simp add: split_beta s1_def s2_def)
  have whole: "run stp (Start a # map Move angles @ [Cancel]) s =
      (fst (handleCancel s2),
       snd (handleStart stp a s) @ snd (run stp (map Move angles) s1) @ snd (handleCancel s2))"
    using run_append [of stp "Start a # map Move angles" "[Cancel]" s]
    by (simp add: split_beta s1_def s2_def)
  have quiet: "filter is_OnChange
       (snd (handleStart stp a s) @ snd (run stp (map Move angles) s1) @ snd (handleCancel s2)) = []"
    if "\<not> tracking s"
  proof -
    have "filter is_OnChange (snd (handleStart stp a s)) = []"
      using that handleStart_snapshot(4) [of stp a s] by simp
    moreover have "filter is_OnChange (snd (run stp (map Move angles) s1)) = []"
      using that moves_keep [of stp angles s1] t1 by simp
    moreover have "filter is_OnChange (snd (handleCancel s2)) = []"
      using that handleCancel_reverts(5) [OF sv2] t2 by simp
    ultimately show ?thesis by simp
  qed
  show ?thesis
    unfolding whole drag fst_conv snd_conv
    using handleCancel_reverts [OF sv2] t2 quiet by simp
qed

text \<open>
  Claim C6, witness: the example knob, at value 10, is dragged to the value 50 and
  cancelled, once with \<open>tracking\<close> on and once with \<open>tracking\<close> off.
\<close>

theorem cancel_restores_start_value_witness:
  "value_k example_knob = Some 10
   \<and> value_k (fst (run None [Start 36, Move 108, Move 180] example_knob)) = Some 50
   \<and> value_k (fst (run None [Start 36, Move 108, Move 180, Cancel] example_knob)) = Some 10
   \<and> snd (handleCancel (fst (run None [Start 36, Move 108, Move 180] example_knob))) =
       [OnChange 10, OnEnd]
   \<and> value_k (fst (run None [Start 36, Move 108, Move 180, Cancel]
        (example_knob\<lparr>tracking := False\<rparr>))) = Some 10
   \<and> snd (handleCancel (fst (run None [Start 36, Move 108, Move 180]
        (example_knob\<lparr>tracking := False\<rparr>)))) = [OnEnd]
   \<and> filter is_OnChange (snd (run None [Start 36, Move 108, Move 180, Cancel]
        (example_knob\<lparr>tracking := False\<rparr>))) = []"
proof -
  have v: "value_k example_knob = Some 10"
    "value_k (example_knob\<lparr>tracking := False\<rparr>) = Some 10"
    by (simp_all add: example_knob_def createKnobState_def)
  have t: "tracking example_knob" "\<not> tracking (example_knob\<lparr>tracking := False\<rparr>)"
    by (simp_all add: example_knob_def createKnobState_def)
  have d: "value_k (fst (run None [Start 36, Move 108, Move 180] example_knob)) = Some 50"
    by (simp add: knob_simps split_beta)
  show ?thesis
    using cancel_restores_start_value [OF v(1), of None 36 "[108, 180]"]
      cancel_restores_start_value [OF v(2), of None 36 "[108, 180]"] v t d
    by simp
qed

text \<open>
  Without a step count each handler keeps the single-rotation invariant, and so does
  every run.
\<close>

lemma handleStart_inv:
  assumes "single_turn_inv s" and "no_snapping stp"
  shows "single_turn_inv (fst (handleStart stp angle s))"
proof -
  let ?p = "calculatePositionFromMouseAngle angle (multiRotation s) (angleOffset s)
              (angleRange s) (num_of (percentage s)) None None"
  have m: "\<not> multiRotation s" using assms(1) by (simp add: single_turn_inv_def)
  have "unit_pct (Position.percentage ?p)"
    using m by (simp add: calculatePositionFromMouseAngle_def calculatePercentage_unit)
  then have "unit_pct (Position.percentage (snapPosition ?p (angleOffset s) (angleRange s) stp))"
    by (simp add: snapPosition_without_steps [OF assms(2)])
  then show ?thesis
    using assms(1)
    by (simp add: single_turn_inv_def handleStart_def Let_def split: option.splits)
qed

lemma handleMove_inv:
  assumes "single_turn_inv s" and "no_snapping stp"
  shows "single_turn_inv (fst (handleMove stp angle s))"
proof (cases "isActive s")
  case False
  then show ?thesis using assms(1) by (simp add: handleMove_def)
next
  case True
  let ?p = "calculatePositionFromMouseAngle angle (multiRotation s) (angleOffset s)
              (angleRange s) (num_of (percentage s)) (percentage s) (mouseAngle s)"
  have m: "\<not> multiRotation s" and u: "unit_pct (percentage s)"
    using assms(1) by (simp_all add: single_turn_inv_def)
  have "unit_pct (Position.percentage ?p)"
    using m resolver_single_unit [OF u] by simp
  then have "unit_pct (Position.percentage (snapPosition ?p (angleOffset s) (angleRange s) stp))"
    by (simp add: snapPosition_without_steps [OF assms(2)])
  then show ?thesis
    using assms(1) True by (simp add: single_turn_inv_def handleMove_def Let_def)
qed

lemma handleEnd_inv:
  assumes "single_turn_inv s"
  shows "single_turn_inv (fst (handleEnd s))"
  using assms by (simp add: single_turn_inv_def handleEnd_def Let_def)

lemma handleCancel_inv:
  assumes "single_turn_inv s"
  shows "single_turn_inv (fst (handleCancel s))"
  using assms
  by (cases "startValue s") (simp_all add: single_turn_inv_def handleCancel_def Let_def)

lemma handleStep_inv:
  assumes "single_turn_inv s"
  shows "single_turn_inv (fst (handleStep direction s))"
proof (cases "value_k s")
  case None
  then show ?thesis using assms by (simp add: handleStep_def)
next
  case (Some cur)
  have lh: "min_k s < max_k s" using assms by (simp add: single_turn_inv_def)
  define v where "v = clamp (min_k s) (max_k s) (cur + direction)"
  have "min_k s \<le> v" "v \<le> max_k s"
    using lh by (simp_all add: v_def clamp_def)
  then have "0 \<le> getPercentageFromValue (min_k s) (max_k s) v"
    "getPercentageFromValue (min_k s) (max_k s) v \<le> 1"
    using lh by (simp_all add: getPercentageFromValue_def)
  then show ?thesis
    using assms Some
    by (simp add: single_turn_inv_def handleStep_def Let_def v_def)
qed

lemma transition_inv:
  assumes "single_turn_inv s" and "no_snapping stp"
  shows "single_turn_inv (fst (transition stp e s))"
  using assms
  by (cases e) (simp_all add: handleStart_inv handleMove_inv handleEnd_inv handleCancel_inv
      handleStep_inv)

lemma run_inv:
  assumes "single_turn_inv s" and "no_snapping stp"
  shows "single_turn_inv (fst (run stp es s))"
  using assms(1)
proof (induction es arbitrary: s)
  case Nil
  then show ?case by simp
next
  case (Cons e es)
  from Cons.prems assms(2) have "single_turn_inv (fst (transition stp e s))"
    by (rule transition_inv)
  then have "single_turn_inv (fst (run stp es (fst (transition stp e s))))"
    by (rule Cons.IH)
  then show ?case by (simp add: split_beta)
qed

lemma createKnobState_inv:
  assumes "lo < hi"
    and "case initialValue of None \<Rightarrow> True | Some v \<Rightarrow> lo \<le> v \<and> v \<le> hi"
    and "rng \<noteq> Some 0"
  shows "single_turn_inv (createKnobState lo hi False initialValue offset rng sz stp trk)"
  using assms
  by (auto simp: single_turn_inv_def createKnobState_def split: option.splits)

text \<open>What a start stores when a step count is set: the snapped first-contact percentage.\<close>

lemma handleStart_snapped_percentage:
  assumes "\<not> multiRotation s" and "0 < n"
  shows "percentage (fst (handleStart (Some n) angle s)) =
           Some (snapPercentage
                   (calculatePercentageFromMouseAngle angle (angleOffset s) (angleRange s)) n)"
  using assms
  by (simp add: handleStart_def calculatePositionFromMouseAngle_def snapPosition_def
      num_of_def Let_def)

text \<open>
  Claim C7, on a snapped start. A single-rotation knob from 0 to 100 with the default
  angles starts at 10. With 20 steps, a start at 354.375 degrees resolves to the
  percentage 63/64 and stores 1.0000000000000002; with 25 steps, a start at 5.625
  degrees resolves to 1/64 and stores -3.469446951953614e-18. Neither is between 0 and
  1. At these two angles every operation of the resolver is exact in doubles, so the
  percentage handed to the snapping is the one the code computes.
  \<open>snapPercentage\<close> of utils/math.ts gives 1 and 0 there.
\<close>

theorem snapped_start_leaves_unit_interval:
  "unit_pct (percentage (createKnobState 0 100 False (Some 10) None None 100 (Some 20) True))
   \<and> calculatePercentageFromMouseAngle (2835 / 8) 0 360 = 63 / 64
   \<and> percentage (fst (handleStart (Some 20) (2835 / 8)
         (createKnobState 0 100 False (Some 10) None None 100 (Some 20) True)))
       = Some (4503599627370497 / 4503599627370496)
   \<and> \<not> unit_pct (percentage (fst (handleStart (Some 20) (2835 / 8)
         (createKnobState 0 100 False (Some 10) None None 100 (Some 20) True))))
   \<and> calculatePercentageFromMouseAngle (45 / 8) 0 360 = 1 / 64
   \<and> percentage (fst (handleStart (Some 25) (45 / 8)
         (createKnobState 0 100 False (Some 10) None None 100 (Some 25) True)))
       = Some (- (1 / 288230376151711744))
   \<and> \<not> unit_pct (percentage (fst (handleStart (Some 25) (45 / 8)
         (createKnobState 0 100 False (Some 10) None None 100 (Some 25) True))))
   \<and> math_snapPercentage (63 / 64) 20 = 1
   \<and> math_snapPercentage (1 / 64) 25 = 0"
proof -
  have c1: "calculatePercentageFromMouseAngle (2835 / 8) 0 360 = 63 / 64"
    and c2: "calculatePercentageFromMouseAngle (45 / 8) 0 360 = 1 / 64"
    by (simp_all add: calculatePercentageFromMouseAngle_def clamp_def js_rem_def js_trunc_def)
  have k: "\<not> multiRotation (createKnobState 0 100 False (Some 10) None None 100 stp True)"
    "angleOffset (createKnobState 0 100 False (Some 10) None None 100 stp True) = 0"
    "angleRange (createKnobState 0 100 False (Some 10) None None 100 stp True) = 360"
    "percentage (createKnobState 0 100 False (Some 10) None None 100 stp True) = Some (1 / 10)"
    for stp
    by (simp_all add: createKnobState_def)
  have s1: "percentage (fst (handleStart (Some 20) (2835 / 8)
         (createKnobState 0 100 False (Some 10) None None 100 (Some 20) True)))
       = Some (4503599627370497 / 4503599627370496)"
    by (simp add: handleStart_snapped_percentage k c1 snapPercentage_63_64_20)
  have s2: "percentage (fst (handleStart (Some 25) (45 / 8)
         (createKnobState 0 100 False (Some 10) None None 100 (Some 25) True)))
       = Some (- (1 / 288230376151711744))"
    by (simp add: handleStart_snapped_percentage k c2 snapPercentage_1_64_25)
  show ?thesis
    unfolding s1 s2
    by (simp add: k c1 c2 math_snapPercentage_63_64_20 math_snapPercentage_1_64_25)
qed

text \<open>
  Claim C10, as the code has it: a step is taken whether or not an interaction is
  active. Whenever the value is not null (and \<open>min < max\<close>), the step sets the value to
  \<open>clamp(min, max, value + direction)\<close>, the percentage to that value's share of the
  range, leaves \<open>isActive\<close> as it is and calls \<open>onInteractiveChange\<close> and \<open>onChange\<close> with
  the new value.
\<close>

theorem step_at_any_time:
  assumes "value_k s = Some cur" and "min_k s < max_k s"
  shows "value_k (fst (handleStep direction s)) =
           Some (clamp (min_k s) (max_k s) (cur + direction))
         \<and> percentage (fst (handleStep direction s)) =
           Some (getPercentageFromValue (min_k s) (max_k s)
                   (clamp (min_k s) (max_k s) (cur + direction)))
         \<and> isActive (fst (handleStep direction s)) = isActive s
         \<and> snd (handleStep direction s) =
           [OnInteractiveChange (clamp (min_k s) (max_k s) (cur + direction)),
            OnChange (clamp (min_k s) (max_k s) (cur + direction))]"
  using assms by (simp add: handleStep_def Let_def)

text \<open>
  Claim C10, witness: the example knob, started at 180 degrees (value 50) and stepped
  by 1 while the interaction is active.
\<close>

theorem step_at_any_time_witness:
  "value_k (fst (handleStart None 180 example_knob)) = Some 50
   \<and> isActive (fst (handleStep 1 (fst (handleStart None 180 example_knob))))
   \<and> value_k (fst (handleStep 1 (fst (handleStart None 180 example_knob)))) = Some 51
   \<and> percentage (fst (handleStep 1 (fst (handleStart None 180 example_knob)))) = Some (51 / 100)
   \<and> snd (handleStep 1 (fst (handleStart None 180 example_knob))) =
       [OnInteractiveChange 51, OnChange 51]"
proof -
  have v: "value_k (fst (handleStart None 180 example_knob)) = Some 50"
    by (simp add: knob_simps)
  have a: "isActive (fst (handleStart None 180 example_knob))"
    "min_k (fst (handleStart None 180 example_knob)) = 0"
    "max_k (fst (handleStart None 180 example_knob)) = 100"
    by (simp_all add: handleStart_def Let_def example_knob_def createKnobState_def)
  have r: "min_k (fst (handleStart None 180 example_knob))
      < max_k (fst (handleStart None 180 example_knob))"
    using a by simp
  show ?thesis
    using step_at_any_time [OF v r, of 1] v a
    by (simp add: clamp_def getPercentageFromValue_def)
qed

text \<open>
  Claim C10, counterexample: in that active state a step does not leave value and
  percentage as they are with no callback made.
\<close>

theorem step_while_active_counterexample:
  "isActive (fst (handleStart None 180 example_knob))
   \<and> \<not> (value_k (fst (handleStep 1 (fst (handleStart None 180 example_knob))))
           = value_k (fst (handleStart None 180 example_knob))
        \<and> percentage (fst (handleStep 1 (fst (handleStart None 180 example_knob))))
           = percentage (fst (handleStart None 180 example_knob))
        \<and> snd (handleStep 1 (fst (handleStart None 180 example_knob))) = [])"
  by (simp add: knob_simps)

section \<open>The spiral\<close>

text \<open>
  Claim C8, on equal endpoints. With \<open>percentageFrom = percentageTo = 0\<close> the segment
  count is 0, the only sample fraction is \<open>0 / 0\<close>, and every coordinate of the path
  is \<open>NaN\<close>.
\<close>

theorem spiral_of_equal_endpoints:
  "\<lceil>(0::real) - 0\<rceil> * 4 = 0
   \<and> sample_fraction 0 (\<lceil>(0::real) - 0\<rceil> * 4) = NaN
   \<and> calcPath (Some 0) (Some 0) 0 360 5 40 40 50 =
       [Lit ''M '', Val NaN, Lit '','', Val NaN, Lit '' '', Lit ''A '', Lit ''L '',
        Val NaN, Lit '','', Val NaN, Lit '' '', Lit ''A '', Lit ''z'']"
  by (simp add: calcPath_def ordered_def spiral_step_def sample_fraction_def pointOnCircle_def
      upto_0_0)

text \<open>The same path comes out for any two equal endpoints.\<close>

lemma calcPath_equal_endpoints:
  "calcPath (Some p) (Some p) offset rng arcWidth r1 r2 center =
     [Lit ''M '', Val NaN, Lit '','', Val NaN, Lit '' '', Lit ''A '', Lit ''L '',
      Val NaN, Lit '','', Val NaN, Lit '' '', Lit ''A '', Lit ''z'']"
  by (simp add: calcPath_def ordered_def spiral_step_def sample_fraction_def pointOnCircle_def
      upto_0_0)

text \<open>Two different endpoints give at least four segments and a path with no \<open>NaN\<close>.\<close>

lemma spiral_step_finite:
  assumes "nb \<noteq> 0" "finite_acc acc"
  shows "finite_acc (spiral_step rmin rmax w a0 a1 c nb i acc)"
  using assms
  by (simp add: spiral_step_def sample_fraction_def pointOnCircle_def finite_acc_def
      finite_pieces_def Let_def)

lemma fold_spiral_step_finite:
  assumes "nb \<noteq> 0" "finite_acc acc"
  shows "finite_acc (fold (spiral_step rmin rmax w a0 a1 c nb) is acc)"
  using assms(2)
proof (induction "is" arbitrary: acc)
  case Nil
  then show ?case by simp
next
  case (Cons i "is")
  have "finite_acc (spiral_step rmin rmax w a0 a1 c nb i acc)"
    using assms(1) Cons.prems by (rule spiral_step_finite)
  then show ?case using Cons.IH by simp
qed

lemma calcPath_distinct_endpoints:
  assumes "pf \<noteq> pt"
  shows "finite_pieces (calcPath (Some pf) (Some pt) offset rng arcWidth r1 r2 center)"
proof -
  have e: "finite_acc \<lparr>forth_s = [], start_s = [], back_s = [], link_s = []\<rparr>"
    by (simp add: finite_acc_def finite_pieces_def)
  have n1: "\<lceil>pt - pf\<rceil> * 4 \<noteq> 0" if "pf < pt"
  proof -
    have "0 < \<lceil>pt - pf\<rceil>" using that by simp
    then show ?thesis by linarith
  qed
  have n2: "\<lceil>pf - pt\<rceil> * 4 \<noteq> 0" if "pt < pf"
  proof -
    have "0 < \<lceil>pf - pt\<rceil>" using that by simp
    then show ?thesis by linarith
  qed
  show ?thesis
  proof (cases "pf \<le> pt")
    case True
    then have lt: "pf < pt" using assms by simp
    have "finite_acc (fold (spiral_step r1 r2 arcWidth (degTorad (offset - 90 + rng * pf))
              (degTorad (offset - 90 + rng * pf + rng * (pt - pf))) center (\<lceil>pt - pf\<rceil> * 4))
            [0..\<lceil>pt - pf\<rceil> * 4] \<lparr>forth_s = [], start_s = [], back_s = [], link_s = []\<rparr>)"
      using n1 [OF lt] e by (rule fold_spiral_step_finite)
    then show ?thesis
      using True
      by (simp add: calcPath_def ordered_def Let_def finite_acc_def finite_pieces_def)
  next
    case False
    then have lt: "pt < pf" by simp
    have "finite_acc (fold (spiral_step r2 r1 arcWidth (degTorad (offset - 90 + rng * pt))
              (degTorad (offset - 90 + rng * pt + rng * (pf - pt))) center (\<lceil>pf - pt\<rceil> * 4))
            [0..\<lceil>pf - pt\<rceil> * 4] \<lparr>forth_s = [], start_s = [], back_s = [], link_s = []\<rparr>)"
      using n2 [OF lt] e by (rule fold_spiral_step_finite)
    then show ?thesis
      using False
      by (simp add: calcPath_def ordered_def Let_def finite_acc_def finite_pieces_def)
  qed
qed

end
